theory Spec2Isabelle
  imports Main "HOL-Library.Sublist"
begin

section \<open>Strings and paths\<close>

text \<open>
  Python's \<^verbatim>\<open>"%d" % n\<close> on an integer: the decimal digits, with a leading minus sign
  for a negative number.
\<close>

definition digit_char :: "nat \<Rightarrow> char" where
  "digit_char d = ''0123456789'' ! d"

fun str_nat :: "nat \<Rightarrow> string" where
  "str_nat n = (if n < 10 then [digit_char n]
                else str_nat (n div 10) @ [digit_char (n mod 10)])"

declare str_nat.simps [simp del]

definition str_int :: "int \<Rightarrow> string" where
  "str_int i = (if i < 0 then CHR ''-'' # str_nat (nat (- i)) else str_nat (nat i))"

text \<open>
  \<^verbatim>\<open>os.path.join(a, b)\<close> of posixpath, for two components: a component that starts
  with the separator replaces what came before; a separator is inserted unless the
  left part is empty or already ends with one.
\<close>

definition startswith_sep :: "string \<Rightarrow> bool" where
  "startswith_sep b = (case b of [] \<Rightarrow> False | c # _ \<Rightarrow> c = CHR ''/'')"

definition endswith_sep :: "string \<Rightarrow> bool" where
  "endswith_sep a = (case rev a of [] \<Rightarrow> False | c # _ \<Rightarrow> c = CHR ''/'')"

definition path_join :: "string \<Rightarrow> string \<Rightarrow> string" where
  "path_join a b =
     (if startswith_sep b then b
      else if a = [] \<or> endswith_sep a then a @ b
      else a @ ''/'' @ b)"

text \<open>\<^verbatim>\<open>os.path.basename(p)\<close>: what follows the last separator.\<close>

definition basename :: "string \<Rightarrow> string" where
  "basename p = rev (takeWhile (\<lambda>c. c \<noteq> CHR ''/'') (rev p))"

text \<open>\<^verbatim>\<open>sep.join(parts)\<close>.\<close>

fun str_join :: "string \<Rightarrow> string list \<Rightarrow> string" where
  "str_join sep [] = []"
| "str_join sep [x] = x"
| "str_join sep (x # y # ys) = x @ sep @ str_join sep (y # ys)"

section \<open>Configurations\<close>

text \<open>
  \<^verbatim>\<open>LoopConfig\<close> is the named tuple of the source. The evaluation configurations come
  from \<^verbatim>\<open>irit_rst_dt.local\<close>; the fields are those the source reads:
  \<^verbatim>\<open>econf.name\<close>, \<^verbatim>\<open>econf.learner.name\<close>, \<^verbatim>\<open>econf.learner.attach\<close>,
  \<^verbatim>\<open>econf.learner.relate\<close> (which may be \<^verbatim>\<open>None\<close>), \<^verbatim>\<open>econf.decoder.name\<close> and
  \<^verbatim>\<open>econf.decoder.decoder\<close>. The decoder is dereferenced without a test by
  \<^verbatim>\<open>_eval_banner\<close>, \<^verbatim>\<open>_decode\<close> and \<^verbatim>\<open>FakeDecodeArgs.argv\<close>, so a configuration
  carries one, and the test \<^verbatim>\<open>econf.decoder is not None\<close> of
  \<^verbatim>\<open>FakeLearnArgs.argv\<close> succeeds.
\<close>

record LoopConfig =
  eval_dir :: string
  scratch_dir :: string
  fold_file :: string
  dataset :: string

record LearnerConfig =
  learner_name :: string
  attach :: string
  relate :: "string option"

record DecoderConfig =
  decoder_name :: string
  decoder_decoder :: string

record EvalConfig =
  name :: string
  learner :: LearnerConfig
  decoder :: DecoderConfig

section \<open>File naming\<close>

definition eval_data_path :: "LoopConfig \<Rightarrow> string \<Rightarrow> string" where
  "eval_data_path lconf ext = path_join (eval_dir lconf) (dataset lconf @ ''.'' @ ext)"

definition features_path :: "LoopConfig \<Rightarrow> string" where
  "features_path lconf = eval_data_path lconf ''relations.sparse''"

definition edu_input_path :: "LoopConfig \<Rightarrow> string" where
  "edu_input_path lconf = features_path lconf @ ''.edu_input''"

definition pairings_path :: "LoopConfig \<Rightarrow> string" where
  "pairings_path lconf = features_path lconf @ ''.pairings''"

definition fold_dir_path :: "LoopConfig \<Rightarrow> int \<Rightarrow> string" where
  "fold_dir_path lconf fld = path_join (scratch_dir lconf) (''fold-'' @ str_int fld)"

definition eval_model_path :: "LoopConfig \<Rightarrow> EvalConfig \<Rightarrow> int \<Rightarrow> string \<Rightarrow> string" where
  "eval_model_path lconf econf fld mtype =
     (let lname = learner_name (learner econf);
          fold_dir = fold_dir_path lconf fld
      in path_join fold_dir (dataset lconf @ ''.'' @ lname @ ''.'' @ mtype @ ''.model''))"

definition counts_file_path :: "LoopConfig \<Rightarrow> EvalConfig \<Rightarrow> int \<Rightarrow> string" where
  "counts_file_path lconf econf fld =
     (let fold_dir = fold_dir_path lconf fld
      in path_join fold_dir (str_join ''.'' [''counts'', name econf, ''csv'']))"

definition decode_output_path :: "LoopConfig \<Rightarrow> EvalConfig \<Rightarrow> int \<Rightarrow> string" where
  "decode_output_path lconf econf fld =
     (let fold_dir = fold_dir_path lconf fld
      in path_join fold_dir (str_join ''.'' [''output'', name econf]))"

definition index_file_path :: "string \<Rightarrow> LoopConfig \<Rightarrow> string" where
  "index_file_path parent_dir lconf =
     path_join parent_dir (''count-index-'' @ dataset lconf @ ''.csv'')"

definition score_file_path_prefix :: "string \<Rightarrow> LoopConfig \<Rightarrow> string" where
  "score_file_path_prefix parent_dir lconf =
     path_join parent_dir (''scores-'' @ dataset lconf)"

text \<open>
  The loop configuration that \<^verbatim>\<open>main\<close> builds for a corpus, from the two
  directories returned by \<^verbatim>\<open>_create_eval_dirs\<close>.
\<close>

definition main_lconf :: "string \<Rightarrow> string \<Rightarrow> string \<Rightarrow> LoopConfig" where
  "main_lconf ed sd corpus =
     (let dset = basename corpus;
          ffile = path_join ed (''folds-'' @ dset @ ''.json'')
      in \<lparr>eval_dir = ed, scratch_dir = sd, fold_file = ffile, dataset = dset\<rparr>)"

section \<open>The world outside\<close>

text \<open>
  The harness acts on a file system and calls the learner, the decoder and the report
  tool. A state is the set of paths that exist (what \<^verbatim>\<open>os.path.exists\<close> answers)
  and the sequence of actions performed so far. What the harness itself does to the file
  system (\<^verbatim>\<open>os.makedirs\<close>, \<^verbatim>\<open>open(..., "w")\<close>, \<^verbatim>\<open>os.link\<close>) has a fixed
  effect; what the tools it calls do to the file system is a parameter of the world, as
  are the constants of \<^verbatim>\<open>irit_rst_dt.local\<close>, the results of \<^verbatim>\<open>latest_tmp()\<close> and
  \<^verbatim>\<open>timestamp()\<close>, the directory listing, the contents of the fold file and the order
  in which a frozenset is iterated. Of \<^verbatim>\<open>os.makedirs\<close> the state records the
  directory made, not the intermediate ones. The one way out of the ordinary flow that
  the source writes is \<^verbatim>\<open>sys.exit\<close>; it is the error value of the model, and it
  carries the state in which the program stops. Exceptions raised by the operating
  system or inside the tools are not part of the model.
\<close>

datatype datapack = DataPack string string string

datatype subpack =
    Training datapack "(string \<times> int) list" int
  | Testing datapack "(string \<times> int) list" int

record index_entry =
  entry_config :: string
  entry_fold :: int
  entry_counts_file :: string

datatype action =
    Print string
  | Makedirs string
  | OpenWrite string
  | Link string string
  | ForceSymlink string string
  | Call "string list" string
  | LoadDataPack string string string
  | Enfold "string list" datapack
  | JsonLoad string
  | Learn "string list" subpack
  | ArgsToDecoder "string list"
  | LoadModels "string list"
  | Decode "string list" subpack
  | IndexOpen string
  | IndexRow string index_entry
  | IndexClose string

record state =
  files :: "string set"
  trace :: "action list"

record world =
  TRAINING_CORPORA :: "string list"
  EVALUATIONS :: "EvalConfig list"
  ATTELO_CONFIG_FILE :: string
  latest_tmp :: string
  timestamp :: string
  listdir :: "string \<Rightarrow> state \<Rightarrow> string list"
  isfile :: "string \<Rightarrow> state \<Rightarrow> bool"
  json_load :: "string \<Rightarrow> state \<Rightarrow> (string \<times> int) list"
  frozenset_iter :: "int list \<Rightarrow> int list"
  external :: "action \<Rightarrow> state \<Rightarrow> string set"

record DataConfig =
  pack :: datapack
  folds :: "(string \<times> int) list"

datatype error = SystemExit string

definition DEBUG :: int where
  "DEBUG = 0"

fun effect :: "world \<Rightarrow> action \<Rightarrow> state \<Rightarrow> string set" where
  "effect W (Print m) s = files s"
| "effect W (Makedirs p) s = insert p (files s)"
| "effect W (OpenWrite p) s = insert p (files s)"
| "effect W (Link src dst) s = insert dst (files s)"
| "effect W (JsonLoad p) s = files s"
| "effect W a s = external W a s"

definition perform :: "world \<Rightarrow> action \<Rightarrow> state \<Rightarrow> state" where
  "perform W a s = \<lparr>files = effect W a s, trace = trace s @ [a]\<rparr>"

text \<open>The actions performed between an earlier state and a later one.\<close>

definition performed :: "state \<Rightarrow> state \<Rightarrow> action list" where
  "performed s s' = drop (length (trace s)) (trace s')"

fun is_learn :: "action \<Rightarrow> bool" where
  "is_learn (Learn argv sp) = True"
| "is_learn a = False"

fun is_index_row :: "action \<Rightarrow> bool" where
  "is_index_row (IndexRow p e) = True"
| "is_index_row a = False"


text \<open>The steps of the learner and the decoder: training, loading models, decoding.\<close>

fun expensive :: "action \<Rightarrow> bool" where
  "expensive (Learn argv sp) = True"
| "expensive (ArgsToDecoder argv) = True"
| "expensive (LoadModels argv) = True"
| "expensive (Decode argv sp) = True"
| "expensive a = False"

section \<open>User feedback\<close>

definition ungathered_message :: string where
  "ungathered_message =
     ''No data to run experiments on.'' @ [CHR 0x0A] @ ''Please run `irit-rst-dt gather`''"

definition exit_ungathered :: "state \<Rightarrow> (error \<times> state) + 'a" where
  "exit_ungathered s = Inl (SystemExit ungathered_message, s)"

definition eval_banner :: "EvalConfig \<Rightarrow> LoopConfig \<Rightarrow> int \<Rightarrow> string" where
  "eval_banner econf lconf fld =
     (let rname = relate (learner econf);
          learner_str = attach (learner econf) @
            (case rname of None \<Rightarrow> [] | Some r \<Rightarrow> if r = [] then [] else '':'' @ r)
      in str_join [CHR 0x0A]
           [concat (replicate 3 ''----------''),
            ''fold '' @ str_int fld @ '' ['' @ dataset lconf @ '']'',
            ''learner(s): '' @ learner_str,
            ''decoder: '' @ decoder_decoder (decoder econf),
            concat (replicate 3 ''----------'')])"

definition corpus_banner :: "LoopConfig \<Rightarrow> string" where
  "corpus_banner lconf =
     str_join [CHR 0x0A]
       [concat (replicate 7 ''==========''),
        dataset lconf,
        concat (replicate 7 ''=========='')]"

definition fold_banner :: "LoopConfig \<Rightarrow> int \<Rightarrow> string" where
  "fold_banner lconf fld =
     str_join [CHR 0x0A]
       [concat (replicate 6 ''==========''),
        ''fold '' @ str_int fld @ '' ['' @ dataset lconf @ '']'',
        concat (replicate 6 ''=========='')]"

section \<open>Argument sets\<close>

definition FakeEvalArgs_argv :: "world \<Rightarrow> LoopConfig \<Rightarrow> EvalConfig \<Rightarrow> int \<Rightarrow> string list" where
  "FakeEvalArgs_argv W lconf econf fld =
     (let model_file_a = eval_model_path lconf econf fld ''attach'';
          model_file_r = eval_model_path lconf econf fld ''relate''
      in [edu_input_path lconf,
          pairings_path lconf,
          features_path lconf,
          ''--config'', ATTELO_CONFIG_FILE W,
          ''--fold'', str_int fld,
          ''--fold-file'', fold_file lconf,
          ''--attachment-model'', model_file_a,
          ''--relation-model'', model_file_r])"

definition FakeEnfoldArgs_argv :: "world \<Rightarrow> LoopConfig \<Rightarrow> string list" where
  "FakeEnfoldArgs_argv W lconf =
     [edu_input_path lconf,
      pairings_path lconf,
      features_path lconf,
      ''--config'', ATTELO_CONFIG_FILE W,
      ''--output'', fold_file lconf]"

definition FakeLearnArgs_argv :: "world \<Rightarrow> LoopConfig \<Rightarrow> EvalConfig \<Rightarrow> int \<Rightarrow> string list" where
  "FakeLearnArgs_argv W lconf econf fld =
     FakeEvalArgs_argv W lconf econf fld
     @ [''--learner'', attach (learner econf)]
     @ (case relate (learner econf) of None \<Rightarrow> [] | Some r \<Rightarrow> [''--relation-learner'', r])
     @ [''--decoder'', decoder_decoder (decoder econf)]"

definition FakeDecodeArgs_argv :: "world \<Rightarrow> LoopConfig \<Rightarrow> EvalConfig \<Rightarrow> int \<Rightarrow> string list" where
  "FakeDecodeArgs_argv W lconf econf fld =
     FakeEvalArgs_argv W lconf econf fld
     @ [''--decoder'', decoder_decoder (decoder econf),
        ''--scores'', counts_file_path lconf econf fld,
        ''--output'', decode_output_path lconf econf fld]"

text \<open>
  The parsed arguments expose the values passed after \<^verbatim>\<open>--attachment-model\<close> and
  \<^verbatim>\<open>--relation-model\<close>.
\<close>

definition attachment_model :: "LoopConfig \<Rightarrow> EvalConfig \<Rightarrow> int \<Rightarrow> string" where
  "attachment_model lconf econf fld = eval_model_path lconf econf fld ''attach''"

definition relation_model :: "LoopConfig \<Rightarrow> EvalConfig \<Rightarrow> int \<Rightarrow> string" where
  "relation_model lconf econf fld = eval_model_path lconf econf fld ''relate''"

section \<open>Evaluation\<close>

fun link_files :: "world \<Rightarrow> string \<Rightarrow> string \<Rightarrow> string list \<Rightarrow> state \<Rightarrow> state" where
  "link_files W data_dir ed [] s = s"
| "link_files W data_dir ed (fname # rest) s =
     (let data_file = path_join data_dir fname;
          eval_file = path_join ed fname;
          s1 = (if isfile W data_file s then perform W (Link data_file eval_file) s else s)
      in link_files W data_dir ed rest s1)"

definition link_data_files :: "world \<Rightarrow> string \<Rightarrow> string \<Rightarrow> state \<Rightarrow> state" where
  "link_data_files W data_dir ed s = link_files W data_dir ed (listdir W data_dir s) s"

definition maybe_learn ::
  "world \<Rightarrow> LoopConfig \<Rightarrow> DataConfig \<Rightarrow> EvalConfig \<Rightarrow> int \<Rightarrow> state \<Rightarrow> state" where
  "maybe_learn W lconf dconf econf fld s =
     (let fold_dir = fold_dir_path lconf fld;
          s1 = (if fold_dir \<notin> files s then perform W (Makedirs fold_dir) s else s);
          sp = Training (pack dconf) (folds dconf) fld
      in if attachment_model lconf econf fld \<in> files s1
            \<and> relation_model lconf econf fld \<in> files s1
         then perform W
                (Print (''reusing '' @ learner_name (learner econf) @ '' model (already built)'')) s1
         else perform W (Learn (FakeLearnArgs_argv W lconf econf fld) sp) s1)"

definition decode ::
  "world \<Rightarrow> LoopConfig \<Rightarrow> DataConfig \<Rightarrow> EvalConfig \<Rightarrow> int \<Rightarrow> state \<Rightarrow> state" where
  "decode W lconf dconf econf fld s =
     (if counts_file_path lconf econf fld \<in> files s
      then perform W
             (Print (''skipping '' @ learner_name (learner econf) @ ''/'' @
                     decoder_name (decoder econf) @ '' (already done)'')) s
      else
        (let fold_dir = fold_dir_path lconf fld;
             s1 = (if fold_dir \<notin> files s then perform W (Makedirs fold_dir) s else s);
             argv = FakeDecodeArgs_argv W lconf econf fld;
             s2 = perform W (ArgsToDecoder argv) s1;
             sp = Testing (pack dconf) (folds dconf) fld;
             s3 = perform W (LoadModels argv) s2
         in perform W (Decode argv sp) s3))"

definition generate_fold_file :: "world \<Rightarrow> LoopConfig \<Rightarrow> datapack \<Rightarrow> state \<Rightarrow> state" where
  "generate_fold_file W lconf dpack s = perform W (Enfold (FakeEnfoldArgs_argv W lconf) dpack) s"

definition mk_report :: "world \<Rightarrow> string \<Rightarrow> LoopConfig \<Rightarrow> string \<Rightarrow> state \<Rightarrow> state" where
  "mk_report W parent_dir lconf idx_file s =
     (let score_prefix = score_file_path_prefix parent_dir lconf;
          json_file = score_prefix @ ''.json'';
          pretty_file = score_prefix @ ''.txt'';
          s1 = perform W (OpenWrite pretty_file) s;
          s2 = perform W (Call [''attelo'', ''report'', idx_file, ''--json'', json_file]
                               pretty_file) s1
      in perform W (Print (''Scores summarised in '' @ pretty_file)) s2)"

definition do_tuple ::
  "world \<Rightarrow> LoopConfig \<Rightarrow> DataConfig \<Rightarrow> EvalConfig \<Rightarrow> int \<Rightarrow> state \<Rightarrow> index_entry \<times> state" where
  "do_tuple W lconf dconf econf fld s =
     (let cfile = counts_file_path lconf econf fld;
          s1 = maybe_learn W lconf dconf econf fld s;
          s2 = decode W lconf dconf econf fld s1
      in (\<lparr>entry_config = name econf, entry_fold = fld, entry_counts_file = cfile\<rparr>, s2))"

text \<open>The loop over \<^verbatim>\<open>EVALUATIONS\<close> inside \<^verbatim>\<open>_do_fold\<close>.\<close>

fun do_evaluations ::
  "world \<Rightarrow> LoopConfig \<Rightarrow> DataConfig \<Rightarrow> int \<Rightarrow> string \<Rightarrow> string \<Rightarrow> EvalConfig list \<Rightarrow> state \<Rightarrow> state"
  where
  "do_evaluations W lconf dconf fld idx fold_idx [] s = s"
| "do_evaluations W lconf dconf fld idx fold_idx (econf # rest) s =
     (let s1 = perform W (Print (eval_banner econf lconf fld)) s;
          (idx_entry, s2) = do_tuple W lconf dconf econf fld s1;
          s3 = perform W (IndexRow idx idx_entry) s2;
          s4 = perform W (IndexRow fold_idx idx_entry) s3
      in do_evaluations W lconf dconf fld idx fold_idx rest s4)"

definition do_fold ::
  "world \<Rightarrow> LoopConfig \<Rightarrow> DataConfig \<Rightarrow> int \<Rightarrow> string \<Rightarrow> state \<Rightarrow> state" where
  "do_fold W lconf dconf fld idx s =
     (let fold_dir = fold_dir_path lconf fld;
          score_prefix = score_file_path_prefix fold_dir lconf
      in if score_prefix @ ''.txt'' \<in> files s
         then perform W (Print (''Skipping fold '' @ str_int fld @ '' (already run)'')) s
         else
           (let s1 = perform W (Print (fold_banner lconf fld)) s;
                s2 = (if fold_dir \<notin> files s1 then perform W (Makedirs fold_dir) s1 else s1);
                fold_idx_file = index_file_path fold_dir lconf;
                s3 = perform W (IndexOpen fold_idx_file) s2;
                s4 = do_evaluations W lconf dconf fld idx fold_idx_file (EVALUATIONS W) s3;
                s5 = perform W (IndexClose fold_idx_file) s4
            in mk_report W fold_dir lconf fold_idx_file s5))"

text \<open>The loop over the folds inside \<^verbatim>\<open>_do_corpus\<close>.\<close>

fun do_folds ::
  "world \<Rightarrow> LoopConfig \<Rightarrow> DataConfig \<Rightarrow> string \<Rightarrow> int list \<Rightarrow> state \<Rightarrow> state" where
  "do_folds W lconf dconf idx [] s = s"
| "do_folds W lconf dconf idx (fld # rest) s =
     do_folds W lconf dconf idx rest (do_fold W lconf dconf fld idx s)"

definition do_corpus :: "world \<Rightarrow> LoopConfig \<Rightarrow> state \<Rightarrow> (error \<times> state) + state" where
  "do_corpus W lconf s =
     (let s1 = perform W (Print (corpus_banner lconf)) s;
          edus_file = edu_input_path lconf
      in if edus_file \<notin> files s1 then exit_ungathered s1
         else
           (let s2 = perform W
                       (LoadDataPack edus_file (pairings_path lconf) (features_path lconf)) s1;
                dpack = DataPack edus_file (pairings_path lconf) (features_path lconf);
                s3 = generate_fold_file W lconf dpack s2;
                s4 = perform W (JsonLoad (fold_file lconf)) s3;
                dconf = \<lparr>pack = dpack, folds = json_load W (fold_file lconf) s3\<rparr>;
                idx_file = index_file_path (scratch_dir lconf) lconf;
                s5 = perform W (IndexOpen idx_file) s4;
                s6 = do_folds W lconf dconf idx_file
                       (frozenset_iter W (map snd (folds dconf))) s5;
                s7 = perform W (IndexClose idx_file) s6
            in Inr (mk_report W (eval_dir lconf) lconf idx_file s7)))"

section \<open>Main\<close>

definition create_eval_dirs ::
  "bool \<Rightarrow> world \<Rightarrow> bool \<Rightarrow> string \<Rightarrow> state \<Rightarrow> (error \<times> state) + ((string \<times> string) \<times> state)"
  where
  "create_eval_dirs debug W resume data_dir s =
     (let eval_current = path_join data_dir ''eval-current'';
          scratch_current = path_join data_dir ''scratch-current''
      in if resume then
           (if eval_current \<notin> files s \<or> scratch_current \<notin> files s
            then Inl (SystemExit ''No currently running evaluation to resume!'', s)
            else Inr ((eval_current, scratch_current), s))
         else
           (let tstamp = (if debug then ''TEST'' else timestamp W);
                ed = path_join data_dir (''eval-'' @ tstamp)
            in case (if ed \<notin> files s then
                       (let s1 = perform W (Makedirs ed) s;
                            s2 = link_data_files W data_dir ed s1
                        in Inr (perform W (ForceSymlink (basename ed) eval_current) s2))
                     else if \<not> debug then
                       Inl (SystemExit ''Try again in literally one second'', s)
                     else Inr s)
               of Inl e \<Rightarrow> Inl e
                | Inr s3 \<Rightarrow>
                   (let sd = path_join data_dir (''scratch-'' @ tstamp);
                        s4 = (if sd \<notin> files s3 then
                                perform W (ForceSymlink (basename sd) scratch_current)
                                  (perform W (Makedirs sd) s3)
                              else s3)
                    in Inr ((ed, sd), s4))))"

text \<open>The loop over \<^verbatim>\<open>TRAINING_CORPORA\<close> inside \<^verbatim>\<open>main\<close>.\<close>

fun do_corpora :: "world \<Rightarrow> string \<Rightarrow> string \<Rightarrow> string list \<Rightarrow> state \<Rightarrow> (error \<times> state) + state" where
  "do_corpora W ed sd [] s = Inr s"
| "do_corpora W ed sd (corpus # rest) s =
     (case do_corpus W (main_lconf ed sd corpus) s of
        Inl e \<Rightarrow> Inl e
      | Inr s1 \<Rightarrow> do_corpora W ed sd rest s1)"

definition main :: "world \<Rightarrow> bool \<Rightarrow> state \<Rightarrow> (error \<times> state) + state" where
  "main W resume s =
     (let data_dir = latest_tmp W
      in if data_dir \<notin> files s then exit_ungathered s
         else
           (case create_eval_dirs (DEBUG \<noteq> 0) W resume data_dir s of
              Inl e \<Rightarrow> Inl e
            | Inr ((ed, sd), s1) \<Rightarrow>
               (let versions = path_join ed ''versions.txt'';
                    s2 = perform W (OpenWrite versions) s1;
                    s3 = perform W (Call [''pip'', ''freeze''] versions) s2
                in do_corpora W ed sd (TRAINING_CORPORA W) s3)))"

section \<open>A sample world\<close>

text \<open>
  Concrete inputs on which the theorems below are exercised: one corpus, whose EDU input
  file is the one file of the data directory, one evaluation configuration, two
  documents in fold 0, and tools that leave behind the files they are asked to write
  (the learner its two model files, the decoder its scores file, the count index its
  file, \<^verbatim>\<open>force_symlink\<close> its link).
\<close>

definition sample_lconf :: LoopConfig where
  "sample_lconf =
     \<lparr>eval_dir = ''ev'', scratch_dir = ''sc'', fold_file = ''ev/folds-rst.json'',
      dataset = ''rst''\<rparr>"

definition sample_econf :: EvalConfig where
  "sample_econf =
     \<lparr>name = ''maxent-mst'',
      learner = \<lparr>learner_name = ''maxent'', attach = ''maxent'', relate = None\<rparr>,
      decoder = \<lparr>decoder_name = ''mst'', decoder_decoder = ''mst''\<rparr>\<rparr>"

definition sample_dconf :: DataConfig where
  "sample_dconf =
     \<lparr>pack = DataPack ''ev/rst.relations.sparse.edu_input'' ''ev/rst.relations.sparse.pairings''
               ''ev/rst.relations.sparse'',
      folds = [(''doc1'', 0), (''doc2'', 0)]\<rparr>"

fun sample_external :: "action \<Rightarrow> state \<Rightarrow> string set" where
  "sample_external (Learn argv sp) s = insert (argv ! 10) (insert (argv ! 12) (files s))"
| "sample_external (Decode argv sp) s = insert (argv ! 16) (files s)"
| "sample_external (ForceSymlink src dst) s = insert dst (files s)"
| "sample_external (IndexOpen p) s = insert p (files s)"
| "sample_external a s = files s"

definition sample_world :: world where
  "sample_world =
     \<lparr>TRAINING_CORPORA = [''data/rst''],
      EVALUATIONS = [sample_econf],
      ATTELO_CONFIG_FILE = ''attelo.config'',
      latest_tmp = ''TMP/latest'',
      timestamp = ''2015-01-01'',
      listdir = (\<lambda>d s. [''rst.relations.sparse.edu_input'']),
      isfile = (\<lambda>p s. True),
      json_load = (\<lambda>p s. [(''doc1'', 0), (''doc2'', 0)]),
      frozenset_iter = remdups,
      external = sample_external\<rparr>"

definition empty_state :: state where
  "empty_state = \<lparr>files = {}, trace = []\<rparr>"

section \<open>Facts about paths\<close>

lemma path_join_plain:
  "a \<noteq> [] \<Longrightarrow> last a \<noteq> CHR ''/'' \<Longrightarrow> \<not> startswith_sep b \<Longrightarrow> path_join a b = a @ ''/'' @ b"
  by (cases a rule: rev_cases) (simp_all add: path_join_def endswith_sep_def)

lemma digit_char_not_sep: "d < 10 \<Longrightarrow> digit_char d \<noteq> CHR ''/''"
proof -
  assume "d < 10"
  then have "d \<in> {0, 1, 2, 3, 4, 5, 6, 7, 8, 9}" by auto
  then show ?thesis by (auto simp: digit_char_def)
qed

lemma str_nat_nonempty: "str_nat n \<noteq> []"
  by (subst str_nat.simps) simp

lemma last_str_nat: "last (str_nat n) = digit_char (n mod 10)"
  by (subst str_nat.simps) simp

lemma last_str_nat_not_sep: "last (str_nat n) \<noteq> CHR ''/''"
  by (simp add: last_str_nat digit_char_not_sep)

lemma str_int_nonempty: "str_int i \<noteq> []"
  by (simp add: str_int_def str_nat_nonempty)

lemma last_str_int_not_sep: "last (str_int i) \<noteq> CHR ''/''"
  by (simp add: str_int_def str_nat_nonempty last_str_nat_not_sep)

lemma fold_name_not_abs: "\<not> startswith_sep (''fold-'' @ str_int fld)"
  by (simp add: startswith_sep_def)

lemma last_path_join: "b \<noteq> [] \<Longrightarrow> last (path_join a b) = last b"
  by (simp add: path_join_def)

lemma path_join_nonempty: "b \<noteq> [] \<Longrightarrow> path_join a b \<noteq> []"
  by (simp add: path_join_def)

lemma fold_dir_path_nonempty: "fold_dir_path lconf fld \<noteq> []"
  by (simp add: fold_dir_path_def path_join_nonempty)

lemma last_fold_dir_path: "last (fold_dir_path lconf fld) = last (str_int fld)"
  by (simp add: fold_dir_path_def last_path_join str_int_nonempty)

lemma last_fold_dir_path_not_sep: "last (fold_dir_path lconf fld) \<noteq> CHR ''/''"
  by (simp add: last_fold_dir_path last_str_int_not_sep)

lemma fold_dir_path_plain:
  "scratch_dir lconf \<noteq> [] \<Longrightarrow> last (scratch_dir lconf) \<noteq> CHR ''/'' \<Longrightarrow>
   fold_dir_path lconf fld = scratch_dir lconf @ ''/fold-'' @ str_int fld"
  using path_join_plain [of "scratch_dir lconf" "''fold-'' @ str_int fld"]
    fold_name_not_abs [of fld]
  by (simp add: fold_dir_path_def)





lemma data_name_not_abs:
  "\<not> startswith_sep d \<Longrightarrow> \<not> startswith_sep (d @ CHR ''.'' # rest)"
  by (cases d) (simp_all add: startswith_sep_def)

lemma eval_data_path_plain:
  assumes "eval_dir lconf \<noteq> []" and "last (eval_dir lconf) \<noteq> CHR ''/''"
    and "\<not> startswith_sep (dataset lconf)"
  shows "eval_data_path lconf ext = eval_dir lconf @ ''/'' @ dataset lconf @ ''.'' @ ext"
  using path_join_plain [OF assms(1,2), of "dataset lconf @ ''.'' @ ext"]
    data_name_not_abs [OF assms(3), of ext]
  by (simp add: eval_data_path_def)

lemma counts_file_path_plain:
  "counts_file_path lconf econf fld = fold_dir_path lconf fld @ ''/counts.'' @ name econf @ ''.csv''"
proof -
  have "\<not> startswith_sep (''counts.'' @ name econf @ ''.csv'')"
    by (simp add: startswith_sep_def)
  from path_join_plain [OF fold_dir_path_nonempty last_fold_dir_path_not_sep this]
  show ?thesis by (simp add: counts_file_path_def)
qed

lemma score_file_path_plain:
  "score_file_path_prefix (fold_dir_path lconf fld) lconf
     = fold_dir_path lconf fld @ ''/scores-'' @ dataset lconf"
proof -
  have "\<not> startswith_sep (''scores-'' @ dataset lconf)"
    by (simp add: startswith_sep_def)
  from path_join_plain [OF fold_dir_path_nonempty last_fold_dir_path_not_sep this]
  show ?thesis by (simp add: score_file_path_prefix_def)
qed

section \<open>The naming conventions\<close>







section \<open>Facts about states\<close>

lemma trace_perform [simp]: "trace (perform W a s) = trace s @ [a]"
  by (simp add: perform_def)

lemma files_perform [simp]: "files (perform W a s) = effect W a s"
  by (simp add: perform_def)

lemma performed_self [simp]: "performed s s = []"
  by (simp add: performed_def)

lemma performed_append: "trace s' = trace s @ xs \<Longrightarrow> performed s s' = xs"
  by (simp add: performed_def)

lemma last_eval_model_path: "last (eval_model_path lconf econf fld mtype) = CHR ''l''"
  by (simp add: eval_model_path_def Let_def last_path_join)

lemma digit_char_not_l: "d < 10 \<Longrightarrow> digit_char d \<noteq> CHR ''l''"
proof -
  assume "d < 10"
  then have "d \<in> {0, 1, 2, 3, 4, 5, 6, 7, 8, 9}" by auto
  then show ?thesis by (auto simp: digit_char_def)
qed

lemma last_fold_dir_path_not_l: "last (fold_dir_path lconf fld) \<noteq> CHR ''l''"
  by (simp add: last_fold_dir_path str_int_def str_nat_nonempty last_str_nat digit_char_not_l)

lemma eval_model_path_not_fold_dir:
  "eval_model_path lconf econf fld mtype \<noteq> fold_dir_path lconf fld'"
  using last_eval_model_path [of lconf econf fld mtype] last_fold_dir_path_not_l [of lconf fld']
  by auto

lemmas sample_defs =
  sample_lconf_def sample_econf_def sample_dconf_def sample_world_def empty_state_def

lemmas path_defs =
  eval_data_path_def features_path_def edu_input_path_def pairings_path_def fold_dir_path_def
  eval_model_path_def counts_file_path_def decode_output_path_def index_file_path_def
  score_file_path_prefix_def path_join_def startswith_sep_def endswith_sep_def
  str_int_def str_nat.simps digit_char_def attachment_model_def relation_model_def

lemmas argv_defs =
  FakeEvalArgs_argv_def FakeLearnArgs_argv_def FakeDecodeArgs_argv_def FakeEnfoldArgs_argv_def

lemma sample_paths:
  "counts_file_path sample_lconf sample_econf 0 = ''sc/fold-0/counts.maxent-mst.csv''"
  "attachment_model sample_lconf sample_econf 0 = ''sc/fold-0/rst.maxent.attach.model''"
  "relation_model sample_lconf sample_econf 0 = ''sc/fold-0/rst.maxent.relate.model''"
  "fold_dir_path sample_lconf 0 = ''sc/fold-0''"
  "edu_input_path sample_lconf = ''ev/rst.relations.sparse.edu_input''"
  "score_file_path_prefix (fold_dir_path sample_lconf 0) sample_lconf = ''sc/fold-0/scores-rst''"
  "index_file_path (fold_dir_path sample_lconf 0) sample_lconf = ''sc/fold-0/count-index-rst.csv''"
  "index_file_path (scratch_dir sample_lconf) sample_lconf = ''sc/count-index-rst.csv''"
  "score_file_path_prefix ''sc/fold-0'' sample_lconf = ''sc/fold-0/scores-rst''"
  "index_file_path ''sc/fold-0'' sample_lconf = ''sc/fold-0/count-index-rst.csv''"
  by (simp_all add: sample_defs path_defs)

lemma sample_first_run:
  "files (snd (do_tuple sample_world sample_lconf sample_dconf sample_econf 0 empty_state))
     = {''sc/fold-0/counts.maxent-mst.csv'',
        ''sc/fold-0/rst.maxent.attach.model'',
        ''sc/fold-0/rst.maxent.relate.model'', ''sc/fold-0''}"
  by (simp add: do_tuple_def maybe_learn_def decode_def Let_def sample_defs path_defs argv_defs
      perform_def)

section \<open>Skipping work that is already done\<close>

text \<open>
  C1. For every loop configuration, evaluation configuration and fold, if the counts
  file of the configuration (\<^verbatim>\<open>counts.<econf.name>.csv\<close> in the fold directory)
  exists, \<^verbatim>\<open>_decode\<close> returns having only printed a message:
  it builds no decoder, loads no model, decodes nothing and leaves the set of files as it
  was. Hence in a state where the counts file and both model files exist, as after a
  completed first run, \<^verbatim>\<open>_do_tuple\<close> performs no step of the learner or the decoder:
  it prints its two messages (after \<^verbatim>\<open>os.makedirs\<close> on the fold directory should that
  be reported missing).
\<close>

theorem decode_skips_counted:
  assumes "counts_file_path lconf econf fld \<in> files s"
  shows "files (decode W lconf dconf econf fld s) = files s
    \<and> performed s (decode W lconf dconf econf fld s)
        = [Print (''skipping '' @ learner_name (learner econf) @ ''/'' @
                  decoder_name (decoder econf) @ '' (already done)'')]
    \<and> (attachment_model lconf econf fld \<in> files s \<and> relation_model lconf econf fld \<in> files s
        \<longrightarrow> performed s (snd (do_tuple W lconf dconf econf fld s))
            = (if fold_dir_path lconf fld \<in> files s then []
               else [Makedirs (fold_dir_path lconf fld)])
              @ [Print (''reusing '' @ learner_name (learner econf) @ '' model (already built)''),
                 Print (''skipping '' @ learner_name (learner econf) @ ''/'' @
                        decoder_name (decoder econf) @ '' (already done)'')]
          \<and> list_all (\<lambda>a. \<not> expensive a) (performed s (snd (do_tuple W lconf dconf econf fld s)))
          \<and> files (snd (do_tuple W lconf dconf econf fld s))
            = insert (fold_dir_path lconf fld) (files s))
    \<and> counts_file_path lconf econf fld
        = fold_dir_path lconf fld @ ''/counts.'' @ name econf @ ''.csv''"
  using assms counts_file_path_plain [of lconf econf fld]
  by (auto simp: decode_def do_tuple_def maybe_learn_def Let_def performed_def)

text \<open>
  In the sample world, a first run from the empty state leaves the counts file and the
  models behind, and the second run only prints.
\<close>

theorem decode_skips_counted_witness:
  "counts_file_path sample_lconf sample_econf 0
     \<in> files (snd (do_tuple sample_world sample_lconf sample_dconf sample_econf 0 empty_state))
   \<and> performed
       (snd (do_tuple sample_world sample_lconf sample_dconf sample_econf 0 empty_state))
       (snd (do_tuple sample_world sample_lconf sample_dconf sample_econf 0
          (snd (do_tuple sample_world sample_lconf sample_dconf sample_econf 0 empty_state))))
     = [Print ''reusing maxent model (already built)'',
        Print ''skipping maxent/mst (already done)'']"
proof -
  let ?s1 = "snd (do_tuple sample_world sample_lconf sample_dconf sample_econf 0 empty_state)"
  note f = sample_first_run
  have h: "counts_file_path sample_lconf sample_econf 0 \<in> files ?s1"
    by (simp add: f sample_paths)
  have m: "attachment_model sample_lconf sample_econf 0 \<in> files ?s1
         \<and> relation_model sample_lconf sample_econf 0 \<in> files ?s1"
    by (simp add: f sample_paths)
  have inn: "fold_dir_path sample_lconf 0 \<in> files ?s1"
    by (simp add: f sample_paths)
  from decode_skips_counted [OF h, of sample_world sample_dconf] m inn
  have "performed ?s1 (snd (do_tuple sample_world sample_lconf sample_dconf sample_econf 0 ?s1))
      = [Print (''reusing '' @ learner_name (learner sample_econf) @ '' model (already built)''),
         Print (''skipping '' @ learner_name (learner sample_econf) @ ''/'' @
                decoder_name (decoder sample_econf) @ '' (already done)'')]"
    by simp
  with h show ?thesis
    by (simp add: sample_econf_def)
qed

text \<open>
  C2. For every loop configuration, evaluation configuration and fold,
  \<^verbatim>\<open>_maybe_learn\<close> invokes the learner if and only if the attachment model file and the
  relation model file do not both exist; when both exist it prints that the model is
  reused and trains nothing, so one missing model of the pair triggers learning.
\<close>

theorem maybe_learn_iff:
  "performed s (maybe_learn W lconf dconf econf fld s)
     = (if fold_dir_path lconf fld \<in> files s then [] else [Makedirs (fold_dir_path lconf fld)])
       @ [if attachment_model lconf econf fld \<in> files s
             \<and> relation_model lconf econf fld \<in> files s
          then Print (''reusing '' @ learner_name (learner econf) @ '' model (already built)'')
          else Learn (FakeLearnArgs_argv W lconf econf fld)
                 (Training (pack dconf) (folds dconf) fld)]
   \<and> list_ex is_learn (performed s (maybe_learn W lconf dconf econf fld s))
     = (\<not> (attachment_model lconf econf fld \<in> files s
           \<and> relation_model lconf econf fld \<in> files s))
   \<and> attachment_model lconf econf fld = eval_model_path lconf econf fld ''attach''
   \<and> relation_model lconf econf fld = eval_model_path lconf econf fld ''relate''"
  by (auto simp: maybe_learn_def Let_def performed_def attachment_model_def relation_model_def
      eval_model_path_not_fold_dir)

text \<open>With the attachment model alone in place, the learner runs.\<close>

theorem maybe_learn_iff_witness:
  "list_ex is_learn
     (performed
        \<lparr>files = {''sc/fold-0'', ''sc/fold-0/rst.maxent.attach.model''}, trace = []\<rparr>
        (maybe_learn sample_world sample_lconf sample_dconf sample_econf 0
           \<lparr>files = {''sc/fold-0'', ''sc/fold-0/rst.maxent.attach.model''}, trace = []\<rparr>))"
proof -
  let ?s = "\<lparr>files = {''sc/fold-0'', ''sc/fold-0/rst.maxent.attach.model''}, trace = []\<rparr>"
  have "\<not> (attachment_model sample_lconf sample_econf 0 \<in> files ?s
          \<and> relation_model sample_lconf sample_econf 0 \<in> files ?s)"
    by (simp add: sample_paths)
  with maybe_learn_iff [of ?s sample_world sample_lconf sample_dconf sample_econf 0,
      THEN conjunct2, THEN conjunct1]
  show ?thesis by blast
qed

section \<open>Aborting and the evaluation directories\<close>

text \<open>
  C4. For every loop configuration, if the EDU input file of the dataset does not exist,
  \<^verbatim>\<open>_do_corpus\<close> exits with the message that tells the user to run
  \<^verbatim>\<open>irit-rst-dt gather\<close>, having only printed the corpus banner: no data is loaded and
  no fold is run. The exit ends the whole run: the corpora that follow are not
  processed. Likewise \<^verbatim>\<open>main\<close> exits with the same message, having done nothing,
  when the data directory does not exist.
\<close>

theorem exits_when_ungathered:
  "(edu_input_path lconf \<notin> files s \<longrightarrow>
      do_corpus W lconf s
        = Inl (SystemExit (''No data to run experiments on.'' @ [CHR 0x0A] @
                           ''Please run `irit-rst-dt gather`''),
               perform W (Print (corpus_banner lconf)) s)
      \<and> performed s (perform W (Print (corpus_banner lconf)) s) = [Print (corpus_banner lconf)]
      \<and> files (perform W (Print (corpus_banner lconf)) s) = files s)
   \<and> (edu_input_path (main_lconf ed sd corpus) \<notin> files s \<longrightarrow>
      do_corpora W ed sd (corpus # rest) s
        = Inl (SystemExit (''No data to run experiments on.'' @ [CHR 0x0A] @
                           ''Please run `irit-rst-dt gather`''),
               perform W (Print (corpus_banner (main_lconf ed sd corpus))) s))
   \<and> (latest_tmp W \<notin> files s \<longrightarrow>
      main W resume s
        = Inl (SystemExit (''No data to run experiments on.'' @ [CHR 0x0A] @
                           ''Please run `irit-rst-dt gather`''), s))"
  by (simp add: do_corpus_def main_def exit_ungathered_def ungathered_message_def Let_def
      performed_def)

theorem exits_when_ungathered_witness:
  "do_corpus sample_world sample_lconf empty_state
     = Inl (SystemExit (''No data to run experiments on.'' @ [CHR 0x0A] @
                        ''Please run `irit-rst-dt gather`''),
            perform sample_world (Print (corpus_banner sample_lconf)) empty_state)
   \<and> do_corpora sample_world ''ev'' ''sc'' [''data/rst'', ''data/other''] empty_state
     = Inl (SystemExit (''No data to run experiments on.'' @ [CHR 0x0A] @
                        ''Please run `irit-rst-dt gather`''),
            perform sample_world (Print (corpus_banner (main_lconf ''ev'' ''sc'' ''data/rst'')))
              empty_state)
   \<and> main sample_world False empty_state
     = Inl (SystemExit (''No data to run experiments on.'' @ [CHR 0x0A] @
                        ''Please run `irit-rst-dt gather`''), empty_state)"
  using exits_when_ungathered
    [of sample_lconf empty_state sample_world "''ev''" "''sc''" "''data/rst''" "[''data/other'']"
        False]
  by (simp add: empty_state_def)

text \<open>
  C10. \<^verbatim>\<open>_create_eval_dirs\<close> exits in exactly two cases: when resuming and one of the
  links \<^verbatim>\<open>eval-current\<close>, \<^verbatim>\<open>scratch-current\<close> does not exist; and, when not
  resuming and not debugging, when the timestamped evaluation directory exists already.
  In every other case it returns the pair of the evaluation and scratch directories: the
  two links when resuming, and otherwise the timestamped directories, each created
  together with its link if it did not exist.
\<close>

theorem create_eval_dirs_cases:
  "(let eval_current = path_join data_dir ''eval-current'';
        scratch_current = path_join data_dir ''scratch-current'';
        tstamp = (if debug then ''TEST'' else timestamp W);
        ed = path_join data_dir (''eval-'' @ tstamp);
        sd = path_join data_dir (''scratch-'' @ tstamp);
        r = create_eval_dirs debug W resume data_dir s
    in (isl r \<longleftrightarrow>
          (resume \<and> (eval_current \<notin> files s \<or> scratch_current \<notin> files s))
          \<or> (\<not> resume \<and> \<not> debug \<and> ed \<in> files s))
     \<and> (resume \<and> (eval_current \<notin> files s \<or> scratch_current \<notin> files s) \<longrightarrow>
          r = Inl (SystemExit ''No currently running evaluation to resume!'', s))
     \<and> (\<not> resume \<and> \<not> debug \<and> ed \<in> files s \<longrightarrow>
          r = Inl (SystemExit ''Try again in literally one second'', s))
     \<and> (resume \<and> eval_current \<in> files s \<and> scratch_current \<in> files s \<longrightarrow>
          r = Inr ((eval_current, scratch_current), s))
     \<and> (\<not> resume \<and> (debug \<or> ed \<notin> files s) \<longrightarrow>
          (let s3 = (if ed \<in> files s then s
                     else perform W (ForceSymlink (basename ed) eval_current)
                            (link_data_files W data_dir ed (perform W (Makedirs ed) s)));
               s4 = (if sd \<in> files s3 then s3
                     else perform W (ForceSymlink (basename sd) scratch_current)
                            (perform W (Makedirs sd) s3))
           in r = Inr ((ed, sd), s4))))"
  by (auto simp: create_eval_dirs_def Let_def)

theorem create_eval_dirs_cases_witness:
  "create_eval_dirs (DEBUG \<noteq> 0) sample_world True ''TMP/latest'' \<lparr>files = {''TMP/latest''}, trace = []\<rparr>
     = Inl (SystemExit ''No currently running evaluation to resume!'',
            \<lparr>files = {''TMP/latest''}, trace = []\<rparr>)
   \<and> create_eval_dirs (DEBUG \<noteq> 0) sample_world True ''TMP/latest''
       \<lparr>files = {''TMP/latest'', ''TMP/latest/eval-current'', ''TMP/latest/scratch-current''},
        trace = []\<rparr>
     = Inr ((''TMP/latest/eval-current'', ''TMP/latest/scratch-current''),
            \<lparr>files = {''TMP/latest'', ''TMP/latest/eval-current'',
                       ''TMP/latest/scratch-current''},
             trace = []\<rparr>)
   \<and> create_eval_dirs (DEBUG \<noteq> 0) sample_world False ''TMP/latest''
       \<lparr>files = {''TMP/latest'', ''TMP/latest/eval-2015-01-01''}, trace = []\<rparr>
     = Inl (SystemExit ''Try again in literally one second'',
            \<lparr>files = {''TMP/latest'', ''TMP/latest/eval-2015-01-01''}, trace = []\<rparr>)
   \<and> create_eval_dirs (DEBUG \<noteq> 0) sample_world False ''TMP/latest''
       \<lparr>files = {''TMP/latest''}, trace = []\<rparr>
     = Inr ((''TMP/latest/eval-2015-01-01'', ''TMP/latest/scratch-2015-01-01''),
            \<lparr>files = {''TMP/latest/scratch-current'', ''TMP/latest/scratch-2015-01-01'',
                       ''TMP/latest/eval-current'',
                       ''TMP/latest/eval-2015-01-01/rst.relations.sparse.edu_input'',
                       ''TMP/latest/eval-2015-01-01'', ''TMP/latest''},
             trace = [Makedirs ''TMP/latest/eval-2015-01-01'',
                      Link ''TMP/latest/rst.relations.sparse.edu_input''
                           ''TMP/latest/eval-2015-01-01/rst.relations.sparse.edu_input'',
                      ForceSymlink ''eval-2015-01-01'' ''TMP/latest/eval-current'',
                      Makedirs ''TMP/latest/scratch-2015-01-01'',
                      ForceSymlink ''scratch-2015-01-01'' ''TMP/latest/scratch-current'']\<rparr>)"
  using create_eval_dirs_cases
      [of "''TMP/latest''" "DEBUG \<noteq> 0" sample_world True "\<lparr>files = {''TMP/latest''}, trace = []\<rparr>"]
    create_eval_dirs_cases
      [of "''TMP/latest''" "DEBUG \<noteq> 0" sample_world True
          "\<lparr>files = {''TMP/latest'', ''TMP/latest/eval-current'', ''TMP/latest/scratch-current''},
            trace = []\<rparr>"]
    create_eval_dirs_cases
      [of "''TMP/latest''" "DEBUG \<noteq> 0" sample_world False
          "\<lparr>files = {''TMP/latest'', ''TMP/latest/eval-2015-01-01''}, trace = []\<rparr>"]
    create_eval_dirs_cases
      [of "''TMP/latest''" "DEBUG \<noteq> 0" sample_world False "\<lparr>files = {''TMP/latest''}, trace = []\<rparr>"]
  by (simp add: Let_def DEBUG_def sample_world_def path_join_def startswith_sep_def
      endswith_sep_def basename_def link_data_files_def perform_def insert_commute)

section \<open>The loops\<close>

lemma prefix_perform: "prefix (trace s) (trace (perform W a s))"
  by simp

lemma prefix_maybe_learn: "prefix (trace s) (trace (maybe_learn W lconf dconf econf fld s))"
  by (simp add: maybe_learn_def Let_def)

lemma prefix_decode: "prefix (trace s) (trace (decode W lconf dconf econf fld s))"
  by (simp add: decode_def Let_def)

lemma prefix_do_tuple: "prefix (trace s) (trace (snd (do_tuple W lconf dconf econf fld s)))"
proof -
  have "prefix (trace s) (trace (maybe_learn W lconf dconf econf fld s))"
    by (rule prefix_maybe_learn)
  also have "prefix (trace (maybe_learn W lconf dconf econf fld s))
               (trace (decode W lconf dconf econf fld (maybe_learn W lconf dconf econf fld s)))"
    by (rule prefix_decode)
  finally show ?thesis by (simp add: do_tuple_def Let_def)
qed

lemma prefix_mk_report: "prefix (trace s) (trace (mk_report W parent lconf idx s))"
  by (simp add: mk_report_def Let_def)

lemma fst_do_tuple:
  "fst (do_tuple W lconf dconf econf fld s)
     = \<lparr>entry_config = name econf, entry_fold = fld,
        entry_counts_file = counts_file_path lconf econf fld\<rparr>"
  by (simp add: do_tuple_def Let_def)

text \<open>One turn of the loop over the evaluation configurations.\<close>

lemma do_evaluations_Cons:
  "do_evaluations W lconf dconf fld idx fold_idx (econf # rest) s =
     do_evaluations W lconf dconf fld idx fold_idx rest
       (perform W (IndexRow fold_idx (fst (do_tuple W lconf dconf econf fld
                                             (perform W (Print (eval_banner econf lconf fld)) s))))
          (perform W (IndexRow idx (fst (do_tuple W lconf dconf econf fld
                                           (perform W (Print (eval_banner econf lconf fld)) s))))
             (snd (do_tuple W lconf dconf econf fld
                     (perform W (Print (eval_banner econf lconf fld)) s)))))"
  by (simp add: Let_def split_def)

lemma prefix_do_evaluations:
  "prefix (trace s) (trace (do_evaluations W lconf dconf fld idx fold_idx es s))"
proof (induction es arbitrary: s)
  case Nil
  show ?case by simp
next
  case (Cons econf es)
  let ?s1 = "perform W (Print (eval_banner econf lconf fld)) s"
  let ?s2 = "snd (do_tuple W lconf dconf econf fld ?s1)"
  let ?e = "fst (do_tuple W lconf dconf econf fld ?s1)"
  let ?s4 = "perform W (IndexRow fold_idx ?e) (perform W (IndexRow idx ?e) ?s2)"
  have "prefix (trace s) (trace ?s1)" by simp
  also have "prefix (trace ?s1) (trace ?s2)" by (rule prefix_do_tuple)
  also have "prefix (trace ?s2) (trace ?s4)" by simp
  also have "prefix (trace ?s4) (trace (do_evaluations W lconf dconf fld idx fold_idx es ?s4))"
    by (rule Cons.IH)
  finally show ?case by (simp only: do_evaluations_Cons)
qed

lemma prefix_do_fold: "prefix (trace s) (trace (do_fold W lconf dconf fld idx s))"
proof (cases "score_file_path_prefix (fold_dir_path lconf fld) lconf @ ''.txt'' \<in> files s")
  case True
  then show ?thesis by (simp add: do_fold_def Let_def)
next
  case False
  let ?fd = "fold_dir_path lconf fld"
  let ?s1 = "perform W (Print (fold_banner lconf fld)) s"
  let ?s2 = "if ?fd \<notin> files ?s1 then perform W (Makedirs ?fd) ?s1 else ?s1"
  let ?fi = "index_file_path ?fd lconf"
  let ?s3 = "perform W (IndexOpen ?fi) ?s2"
  let ?s4 = "do_evaluations W lconf dconf fld idx ?fi (EVALUATIONS W) ?s3"
  let ?s5 = "perform W (IndexClose ?fi) ?s4"
  have "prefix (trace s) (trace ?s3)" by simp
  also have "prefix (trace ?s3) (trace ?s4)" by (rule prefix_do_evaluations)
  also have "prefix (trace ?s4) (trace ?s5)" by simp
  also have "prefix (trace ?s5) (trace (mk_report W ?fd lconf ?fi ?s5))" by (rule prefix_mk_report)
  finally show ?thesis using False by (simp add: do_fold_def Let_def)
qed


lemma filter_performed:
  assumes "prefix (trace s) (trace s')"
    and "filter P (trace s') = filter P (trace s) @ R"
  shows "filter P (performed s s') = R"
proof -
  from assms(1) obtain xs where xs: "trace s' = trace s @ xs"
    by (auto simp: prefix_def)
  then have "performed s s' = xs" by (rule performed_append)
  with assms(2) xs show ?thesis by simp
qed

lemma rows_maybe_learn:
  "filter is_index_row (trace (maybe_learn W lconf dconf econf fld s))
     = filter is_index_row (trace s)"
  by (simp add: maybe_learn_def Let_def)

lemma rows_decode:
  "filter is_index_row (trace (decode W lconf dconf econf fld s))
     = filter is_index_row (trace s)"
  by (simp add: decode_def Let_def)

lemma rows_do_tuple:
  "filter is_index_row (trace (snd (do_tuple W lconf dconf econf fld s)))
     = filter is_index_row (trace s)"
  by (simp add: do_tuple_def Let_def rows_maybe_learn rows_decode)

lemma rows_mk_report:
  "filter is_index_row (trace (mk_report W parent lconf idx s)) = filter is_index_row (trace s)"
  by (simp add: mk_report_def Let_def)

lemma rows_do_evaluations:
  "filter is_index_row (trace (do_evaluations W lconf dconf fld idx fold_idx es s))
     = filter is_index_row (trace s)
       @ concat (map (\<lambda>econf.
           [IndexRow idx \<lparr>entry_config = name econf, entry_fold = fld,
                           entry_counts_file = counts_file_path lconf econf fld\<rparr>,
            IndexRow fold_idx \<lparr>entry_config = name econf, entry_fold = fld,
                                entry_counts_file = counts_file_path lconf econf fld\<rparr>]) es)"
proof (induction es arbitrary: s)
  case Nil
  show ?case by simp
next
  case (Cons econf es)
  show ?case
    by (simp only: do_evaluations_Cons Cons.IH)
       (simp add: rows_do_tuple fst_do_tuple)
qed

lemma rows_do_fold_run:
  assumes "score_file_path_prefix (fold_dir_path lconf fld) lconf @ ''.txt'' \<notin> files s"
  shows "filter is_index_row (trace (do_fold W lconf dconf fld idx s))
     = filter is_index_row (trace s)
       @ concat (map (\<lambda>econf.
           [IndexRow idx \<lparr>entry_config = name econf, entry_fold = fld,
                           entry_counts_file = counts_file_path lconf econf fld\<rparr>,
            IndexRow (index_file_path (fold_dir_path lconf fld) lconf)
              \<lparr>entry_config = name econf, entry_fold = fld,
               entry_counts_file = counts_file_path lconf econf fld\<rparr>]) (EVALUATIONS W))"
  using assms
  by (simp add: do_fold_def Let_def rows_mk_report rows_do_evaluations)

text \<open>
  C8. For every fold that is not skipped, the index rows that \<^verbatim>\<open>_do_fold\<close> writes
  are, for each configuration of \<^verbatim>\<open>EVALUATIONS\<close> in order, one row to the
  corpus-level index followed by the same row to the index of the fold; the row records
  the configuration name, the fold and the counts file path. This holds in every state,
  so also where the learner and the decoder are both skipped.
\<close>

theorem do_fold_index_rows:
  assumes "score_file_path_prefix (fold_dir_path lconf fld) lconf @ ''.txt'' \<notin> files s"
  shows "filter is_index_row (performed s (do_fold W lconf dconf fld idx s))
     = concat (map (\<lambda>econf.
           [IndexRow idx \<lparr>entry_config = name econf, entry_fold = fld,
                           entry_counts_file = counts_file_path lconf econf fld\<rparr>,
            IndexRow (index_file_path (fold_dir_path lconf fld) lconf)
              \<lparr>entry_config = name econf, entry_fold = fld,
               entry_counts_file = counts_file_path lconf econf fld\<rparr>]) (EVALUATIONS W))"
  by (rule filter_performed [OF prefix_do_fold rows_do_fold_run [OF assms]])


text \<open>A fold whose models and counts are in place but whose report is not: the rows are written.\<close>

theorem do_fold_index_rows_witness:
  "filter is_index_row
     (performed
        \<lparr>files = {''sc/fold-0'', ''sc/fold-0/rst.maxent.attach.model'',
                  ''sc/fold-0/rst.maxent.relate.model'', ''sc/fold-0/counts.maxent-mst.csv''},
         trace = []\<rparr>
        (do_fold sample_world sample_lconf sample_dconf 0 ''sc/count-index-rst.csv''
           \<lparr>files = {''sc/fold-0'', ''sc/fold-0/rst.maxent.attach.model'',
                     ''sc/fold-0/rst.maxent.relate.model'', ''sc/fold-0/counts.maxent-mst.csv''},
            trace = []\<rparr>))
   = [IndexRow ''sc/count-index-rst.csv''
        \<lparr>entry_config = ''maxent-mst'', entry_fold = 0,
         entry_counts_file = ''sc/fold-0/counts.maxent-mst.csv''\<rparr>,
      IndexRow ''sc/fold-0/count-index-rst.csv''
        \<lparr>entry_config = ''maxent-mst'', entry_fold = 0,
         entry_counts_file = ''sc/fold-0/counts.maxent-mst.csv''\<rparr>]"
proof -
  let ?s = "\<lparr>files = {''sc/fold-0'', ''sc/fold-0/rst.maxent.attach.model'',
                  ''sc/fold-0/rst.maxent.relate.model'', ''sc/fold-0/counts.maxent-mst.csv''},
         trace = []\<rparr>"
  have h: "score_file_path_prefix (fold_dir_path sample_lconf 0) sample_lconf @ ''.txt''
             \<notin> files ?s"
    by (simp add: sample_paths)
  have e: "EVALUATIONS sample_world = [sample_econf]" and n: "name sample_econf = ''maxent-mst''"
    by (simp_all add: sample_world_def sample_econf_def)
  from do_fold_index_rows [OF h, of sample_world sample_dconf "''sc/count-index-rst.csv''"]
  show ?thesis
    by (simp add: e n sample_paths)
qed

lemma do_evaluations_foldl:
  "do_evaluations W lconf dconf fld idx fold_idx es s =
     foldl (\<lambda>st econf.
              perform W (IndexRow fold_idx (fst (do_tuple W lconf dconf econf fld
                                             (perform W (Print (eval_banner econf lconf fld)) st))))
                (perform W (IndexRow idx (fst (do_tuple W lconf dconf econf fld
                                           (perform W (Print (eval_banner econf lconf fld)) st))))
                   (snd (do_tuple W lconf dconf econf fld
                           (perform W (Print (eval_banner econf lconf fld)) st)))))
       s es"
proof (induction es arbitrary: s)
  case Nil
  show ?case by simp
next
  case (Cons econf es)
  show ?case
    by (simp only: do_evaluations_Cons Cons.IH foldl_Cons)
qed

lemma do_evaluations_append:
  "do_evaluations W lconf dconf fld idx fold_idx (es @ es') s =
     do_evaluations W lconf dconf fld idx fold_idx es'
       (do_evaluations W lconf dconf fld idx fold_idx es s)"
  by (simp add: do_evaluations_foldl)

lemma do_folds_append:
  "do_folds W lconf dconf idx (fs @ fs') s =
     do_folds W lconf dconf idx fs' (do_folds W lconf dconf idx fs s)"
  by (induction fs arbitrary: s) simp_all

lemma do_corpora_append:
  "do_corpora W ed sd (cs @ cs') s =
     (case do_corpora W ed sd cs s of
        Inl e \<Rightarrow> Inl e
      | Inr s1 \<Rightarrow> do_corpora W ed sd cs' s1)"
  by (induction cs arbitrary: s) (simp_all split: sum.splits)

lemma trace_mk_report:
  "trace (mk_report W parent lconf idx s)
     = trace s @ [OpenWrite (score_file_path_prefix parent lconf @ ''.txt''),
                  Call [''attelo'', ''report'', idx, ''--json'',
                        score_file_path_prefix parent lconf @ ''.json'']
                       (score_file_path_prefix parent lconf @ ''.txt''),
                  Print (''Scores summarised in '' @ score_file_path_prefix parent lconf @ ''.txt'')]"
  by (simp add: mk_report_def Let_def)

text \<open>
  C3. For every loop configuration and fold, when the file
  \<^verbatim>\<open>scores-<dataset>.txt\<close> of the fold directory exists, \<^verbatim>\<open>_do_fold\<close> only prints
  that the fold is skipped: it runs no configuration, writes no index row and makes no
  report. Otherwise it announces the fold, opens the index of the fold, and for each
  configuration of \<^verbatim>\<open>EVALUATIONS\<close> in turn prints its banner, runs
  \<^verbatim>\<open>_do_tuple\<close> and writes the two index rows; then it closes the index, and the
  last thing it does is to generate the report of the fold.
\<close>

theorem do_fold_skip_or_run:
  "score_file_path_prefix (fold_dir_path lconf fld) lconf @ ''.txt''
     = fold_dir_path lconf fld @ ''/scores-'' @ dataset lconf @ ''.txt''
   \<and> (score_file_path_prefix (fold_dir_path lconf fld) lconf @ ''.txt'' \<in> files s \<longrightarrow>
      do_fold W lconf dconf fld idx s
        = perform W (Print (''Skipping fold '' @ str_int fld @ '' (already run)'')) s
      \<and> performed s (do_fold W lconf dconf fld idx s)
        = [Print (''Skipping fold '' @ str_int fld @ '' (already run)'')]
      \<and> files (do_fold W lconf dconf fld idx s) = files s)
   \<and> (score_file_path_prefix (fold_dir_path lconf fld) lconf @ ''.txt'' \<notin> files s \<longrightarrow>
      (let fold_dir = fold_dir_path lconf fld;
           fold_idx = index_file_path fold_dir lconf;
           s1 = perform W (Print (fold_banner lconf fld)) s;
           s2 = (if fold_dir \<in> files s then s1 else perform W (Makedirs fold_dir) s1);
           s3 = perform W (IndexOpen fold_idx) s2;
           s4 = foldl (\<lambda>st econf.
                  (let st1 = perform W (Print (eval_banner econf lconf fld)) st;
                       entry = fst (do_tuple W lconf dconf econf fld st1);
                       st2 = snd (do_tuple W lconf dconf econf fld st1)
                   in perform W (IndexRow fold_idx entry) (perform W (IndexRow idx entry) st2)))
                  s3 (EVALUATIONS W);
           s5 = perform W (IndexClose fold_idx) s4
       in do_fold W lconf dconf fld idx s = mk_report W fold_dir lconf fold_idx s5
        \<and> trace (do_fold W lconf dconf fld idx s)
          = trace s5 @ [OpenWrite (score_file_path_prefix fold_dir lconf @ ''.txt''),
                        Call [''attelo'', ''report'', fold_idx, ''--json'',
                              score_file_path_prefix fold_dir lconf @ ''.json'']
                             (score_file_path_prefix fold_dir lconf @ ''.txt''),
                        Print (''Scores summarised in '' @
                               score_file_path_prefix fold_dir lconf @ ''.txt'')]
        \<and> prefix (trace s) (trace s5)))"
proof (intro conjI impI)
  show "score_file_path_prefix (fold_dir_path lconf fld) lconf @ ''.txt''
     = fold_dir_path lconf fld @ ''/scores-'' @ dataset lconf @ ''.txt''"
    by (simp add: score_file_path_plain)
next
  assume h: "score_file_path_prefix (fold_dir_path lconf fld) lconf @ ''.txt'' \<in> files s"
  then show "do_fold W lconf dconf fld idx s
        = perform W (Print (''Skipping fold '' @ str_int fld @ '' (already run)'')) s"
    by (simp add: do_fold_def Let_def)
  then show "performed s (do_fold W lconf dconf fld idx s)
        = [Print (''Skipping fold '' @ str_int fld @ '' (already run)'')]"
    by (simp add: performed_def)
  from h show "files (do_fold W lconf dconf fld idx s) = files s"
    by (simp add: do_fold_def Let_def)
next
  assume h: "score_file_path_prefix (fold_dir_path lconf fld) lconf @ ''.txt'' \<notin> files s"
  let ?fd = "fold_dir_path lconf fld"
  let ?fi = "index_file_path ?fd lconf"
  let ?s1 = "perform W (Print (fold_banner lconf fld)) s"
  let ?s2 = "if ?fd \<in> files s then ?s1 else perform W (Makedirs ?fd) ?s1"
  let ?s3 = "perform W (IndexOpen ?fi) ?s2"
  let ?s4 = "do_evaluations W lconf dconf fld idx ?fi (EVALUATIONS W) ?s3"
  let ?s5 = "perform W (IndexClose ?fi) ?s4"
  have eq: "do_fold W lconf dconf fld idx s = mk_report W ?fd lconf ?fi ?s5"
    using h by (simp add: do_fold_def Let_def)
  have tr: "trace (do_fold W lconf dconf fld idx s)
          = trace ?s5 @ [OpenWrite (score_file_path_prefix ?fd lconf @ ''.txt''),
                        Call [''attelo'', ''report'', ?fi, ''--json'',
                              score_file_path_prefix ?fd lconf @ ''.json'']
                             (score_file_path_prefix ?fd lconf @ ''.txt''),
                        Print (''Scores summarised in '' @
                               score_file_path_prefix ?fd lconf @ ''.txt'')]"
    by (simp only: eq trace_mk_report)
  have "prefix (trace s) (trace ?s3)" by simp
  also have "prefix (trace ?s3) (trace ?s4)" by (rule prefix_do_evaluations)
  also have "prefix (trace ?s4) (trace ?s5)" by simp
  finally have pre: "prefix (trace s) (trace ?s5)" .
  from eq tr pre
  show "(let fold_dir = fold_dir_path lconf fld;
           fold_idx = index_file_path fold_dir lconf;
           s1 = perform W (Print (fold_banner lconf fld)) s;
           s2 = (if fold_dir \<in> files s then s1 else perform W (Makedirs fold_dir) s1);
           s3 = perform W (IndexOpen fold_idx) s2;
           s4 = foldl (\<lambda>st econf.
                  (let st1 = perform W (Print (eval_banner econf lconf fld)) st;
                       entry = fst (do_tuple W lconf dconf econf fld st1);
                       st2 = snd (do_tuple W lconf dconf econf fld st1)
                   in perform W (IndexRow fold_idx entry) (perform W (IndexRow idx entry) st2)))
                  s3 (EVALUATIONS W);
           s5 = perform W (IndexClose fold_idx) s4
       in do_fold W lconf dconf fld idx s = mk_report W fold_dir lconf fold_idx s5
        \<and> trace (do_fold W lconf dconf fld idx s)
          = trace s5 @ [OpenWrite (score_file_path_prefix fold_dir lconf @ ''.txt''),
                        Call [''attelo'', ''report'', fold_idx, ''--json'',
                              score_file_path_prefix fold_dir lconf @ ''.json'']
                             (score_file_path_prefix fold_dir lconf @ ''.txt''),
                        Print (''Scores summarised in '' @
                               score_file_path_prefix fold_dir lconf @ ''.txt'')]
        \<and> prefix (trace s) (trace s5))"
    unfolding Let_def do_evaluations_foldl by blast
qed


theorem do_fold_skip_or_run_witness:
  "do_fold sample_world sample_lconf sample_dconf 0 ''sc/count-index-rst.csv''
     \<lparr>files = {''sc/fold-0'', ''sc/fold-0/scores-rst.txt''}, trace = []\<rparr>
   = \<lparr>files = {''sc/fold-0'', ''sc/fold-0/scores-rst.txt''},
      trace = [Print ''Skipping fold 0 (already run)'']\<rparr>
   \<and> last (trace (do_fold sample_world sample_lconf sample_dconf 0 ''sc/count-index-rst.csv''
                     empty_state))
     = Print ''Scores summarised in sc/fold-0/scores-rst.txt''"
proof -
  let ?s = "\<lparr>files = {''sc/fold-0'', ''sc/fold-0/scores-rst.txt''}, trace = []\<rparr>"
  have h1: "score_file_path_prefix (fold_dir_path sample_lconf 0) sample_lconf @ ''.txt''
              \<in> files ?s"
    by (simp add: sample_paths)
  have h2: "score_file_path_prefix (fold_dir_path sample_lconf 0) sample_lconf @ ''.txt''
              \<notin> files empty_state"
    by (simp add: empty_state_def)
  note skip = do_fold_skip_or_run
         [of sample_lconf 0 ?s sample_world sample_dconf "''sc/count-index-rst.csv''",
          THEN conjunct2, THEN conjunct1, rule_format, OF h1, THEN conjunct1]
  note run = do_fold_skip_or_run
         [of sample_lconf 0 empty_state sample_world sample_dconf "''sc/count-index-rst.csv''",
          unfolded Let_def, THEN conjunct2, THEN conjunct2, rule_format, OF h2,
          THEN conjunct2, THEN conjunct1]
  have a: "do_fold sample_world sample_lconf sample_dconf 0 ''sc/count-index-rst.csv'' ?s
        = \<lparr>files = {''sc/fold-0'', ''sc/fold-0/scores-rst.txt''},
           trace = [Print ''Skipping fold 0 (already run)'']\<rparr>"
    by (simp only: skip) (simp add: perform_def str_int_def str_nat.simps digit_char_def)
  have b: "last (trace (do_fold sample_world sample_lconf sample_dconf 0
                          ''sc/count-index-rst.csv'' empty_state))
        = Print (''Scores summarised in '' @
                 score_file_path_prefix (fold_dir_path sample_lconf 0) sample_lconf @ ''.txt'')"
    by (subst run) simp
  from a b show ?thesis
    by (simp add: sample_paths)
qed

section \<open>Worlds in which no file disappears\<close>



















section \<open>The order of execution\<close>









end
